theory Spec2Isabelle
  imports Main "HOL-Library.Sublist"
begin

section \<open>Strings of the JavaScript runtime\<close>

text \<open>
  The server (\<^verbatim>\<open>src/server.ts\<close>) works on JavaScript strings. They are modelled as
  \<^typ>\<open>string\<close>: a text is the list of its characters, a character outside ASCII
  (the emoji of the guidance blocks) is the list of its UTF-8 bytes.

  \<^verbatim>\<open>String.prototype.toLowerCase\<close> is modelled on the ASCII letters \<open>A\<close> to \<open>Z\<close>; every
  other character is left as it is. This is what the runtime does on file names and
  queries whose cased letters are ASCII.
\<close>


definition toLowerChar :: "char \<Rightarrow> char" where
  "toLowerChar c =
     (let n = (of_char c :: nat) in if 65 \<le> n \<and> n \<le> 90 then char_of (n + 32) else c)"

definition toLowerCase :: "string \<Rightarrow> string" where
  "toLowerCase s = map toLowerChar s"

text \<open>
  \<^verbatim>\<open>s.includes(t)\<close>: does \<open>t\<close> occur in \<open>s\<close> as a contiguous substring. The empty
  string occurs in every string.
\<close>

fun js_includes :: "string \<Rightarrow> string \<Rightarrow> bool" where
  "js_includes [] t = (t = [])"
| "js_includes (c # cs) t = (prefix t (c # cs) \<or> js_includes cs t)"

text \<open>\<^verbatim>\<open>xs.join(sep)\<close>.\<close>

fun join :: "string \<Rightarrow> string list \<Rightarrow> string" where
  "join sep [] = []"
| "join sep [x] = x"
| "join sep (x # y # ys) = x @ sep @ join sep (y # ys)"

text \<open>
  A value that is thrown. \<^verbatim>\<open>`${err}`\<close> renders it as a string; the model keeps
  that rendering.
\<close>

datatype error = Error string

fun toString :: "error \<Rightarrow> string" where
  "toString (Error s) = s"

text \<open>
  Truthiness of an optional string parameter, as tested by \<^verbatim>\<open>if (x)\<close>: \<^verbatim>\<open>undefined\<close>
  and the empty string are falsy.
\<close>

fun truthy :: "string option \<Rightarrow> bool" where
  "truthy None = False"
| "truthy (Some s) = (s \<noteq> [])"

section \<open>The functions of \<^verbatim>\<open>node:path\<close> that the server calls\<close>

text \<open>
  \<^verbatim>\<open>extname\<close> and \<^verbatim>\<open>basename\<close> are applied to the entries that \<^verbatim>\<open>fs.readdirSync\<close>
  returns. An entry is the name of a file inside its directory, so it holds no path
  separator, and the two functions are modelled (POSIX flavour) on such names.

  \<^verbatim>\<open>extname(path)\<close> is the part of the name from its last dot to its end; it is empty when
  the name has no dot, when its only dot is its first character, and for the name \<open>..\<close>.
\<close>

definition extname :: "string \<Rightarrow> string" where
  "extname path =
     (let startDot = length path - Suc (length (takeWhile (\<lambda>c. c \<noteq> CHR ''.'') (rev path)))
      in if CHR ''.'' \<notin> set path \<or> startDot = 0 \<or> path = ''..'' then []
         else drop startDot path)"

text \<open>
  \<^verbatim>\<open>basename(path, suffix)\<close> on a name without separator: the name without the suffix,
  when the suffix is not empty, ends the name and is not the whole name; the empty string
  when the suffix is the whole name; the name itself otherwise.
\<close>

definition basename :: "string \<Rightarrow> string \<Rightarrow> string" where
  "basename path sfx =
     (if sfx \<noteq> [] \<and> length sfx \<le> length path then
        (if sfx = path then []
         else if suffix sfx path then take (length path - length sfx) path
         else path)
      else path)"

text \<open>
  \<^verbatim>\<open>join(a, b)\<close> of \<^verbatim>\<open>node:path\<close>. The runtime also normalises the joined path; the server
  uses the path only as the argument of \<^verbatim>\<open>fs.readdirSync\<close>, whose answer is a parameter of
  the model.
\<close>

definition pathJoin :: "string \<Rightarrow> string \<Rightarrow> string" where
  "pathJoin a b = a @ ''/'' @ b"

section \<open>The world the server runs in\<close>

text \<open>
  What the server reads from outside: the working directory of the process, the answer of
  \<^verbatim>\<open>fs.readdirSync\<close> for a path (a list of entry names, or a thrown error when the
  directory is missing or unreadable), and the two helpers of \<^verbatim>\<open>./utils/index.js\<close>,
  whose source is not part of the files at hand. The helpers return a promise: it yields a
  text or is rejected with an error. They are parameters of the model; nothing is assumed
  about them.
\<close>

record world =
  cwd :: string
  readdirSync :: "string \<Rightarrow> error + string list"
  readMarkdownFromDirectory :: "string \<Rightarrow> string \<Rightarrow> error + string"
  readAllMarkdownFromDirectories :: "string list \<Rightarrow> error + string"

text \<open>
  What a call does to the outside, in the order it does it: directory reads, calls of the
  two helpers, and lines written with \<^verbatim>\<open>console.error\<close>.
\<close>

datatype effect =
    Readdir string
  | ConsoleError string
  | ReadMarkdown string string
  | ReadAllMarkdown "string list"

fun isReadMarkdown :: "effect \<Rightarrow> bool" where
  "isReadMarkdown (ReadMarkdown d f) = True"
| "isReadMarkdown e = False"

fun isReaddir :: "effect \<Rightarrow> bool" where
  "isReaddir (Readdir p) = True"
| "isReaddir e = False"

text \<open>The object \<^verbatim>\<open>{ type: "text", text: ... }\<close> that a tool returns.\<close>

datatype content = Text string

text \<open>
  A tool's \<^verbatim>\<open>execute\<close> yields the effects it performed and either the error it was
  rejected with (\<open>Inl\<close>) or the content it returned (\<open>Inr\<close>).
\<close>

type_synonym outcome = "effect list \<times> (error + content)"

section \<open>The fixed texts\<close>

text \<open>The emoji U+1F504, U+1F4DA and U+1F3AF, as UTF-8 bytes.\<close>

definition emoji_arrows :: string where
  "emoji_arrows = [CHR 0xF0, CHR 0x9F, CHR 0x94, CHR 0x84]"

definition emoji_books :: string where
  "emoji_books = [CHR 0xF0, CHR 0x9F, CHR 0x93, CHR 0x9A]"

definition emoji_target :: string where
  "emoji_target = [CHR 0xF0, CHR 0x9F, CHR 0x8E, CHR 0xAF]"

definition smart_contract_reminder :: string where
  "smart_contract_reminder =
     ''\<newline>\<newline>'' @ emoji_arrows @ '' IMPORTANT REMINDERS:\<newline>''
     @ ''- If you get stuck implementing any part, use 'debug_aptos_issue' tool with your specific problem\<newline>''
     @ ''- Before proceeding to frontend, use 'validate_current_implementation' to ensure Move code follows best practices\<newline>''
     @ ''- For specific integrations (wallet, gas station, indexer), use 'get_aptos_resources' with relevant context\<newline>''
     @ ''- If errors occur, always consult MCP tools before trying generic solutions''"

definition ui_frontend_reminder :: string where
  "ui_frontend_reminder =
     ''\<newline>\<newline>'' @ emoji_arrows @ '' IMPORTANT REMINDERS:\<newline>''
     @ ''- If wallet connection fails, use 'get_specific_aptos_resource' with 'how_to_add_wallet_connection'\<newline>''
     @ ''- For transaction signing issues, use 'debug_aptos_issue' with your specific error\<newline>''
     @ ''- Before deploying, use 'validate_current_implementation' to check integration patterns\<newline>''
     @ ''- For rate limiting or API issues, consult 'how_to_handle_rate_limit_in_a_dapp' resource''"

definition dapp_reminder :: string where
  "dapp_reminder =
     ''\<newline>\<newline>'' @ emoji_arrows @ '' IMPORTANT REMINDERS:\<newline>''
     @ ''- At each development phase, use 'validate_current_implementation' to ensure you're following Aptos best practices\<newline>''
     @ ''- If you encounter ANY errors or get stuck, use 'debug_aptos_issue' instead of guessing\<newline>''
     @ ''- Before final deployment, use 'pre_deployment_checklist' to verify everything\<newline>''
     @ ''- Keep consulting MCP resources throughout development - don't rely on general blockchain knowledge''"

definition list_reminder :: string where
  "list_reminder =
     ''\<newline>\<newline>'' @ emoji_arrows @ '' USAGE REMINDER:\<newline>''
     @ ''- Use 'get_specific_aptos_resource' with exact filename to get detailed guidance\<newline>''
     @ ''- Use 'get_aptos_resources' with context for smart recommendations\<newline>''
     @ ''- Use 'debug_aptos_issue' when stuck or encountering errors\<newline>''
     @ ''- Always validate your implementation with 'validate_current_implementation'' @ [CHR 0x27]"

definition specific_reminder :: string where
  "specific_reminder =
     ''\<newline>\<newline>'' @ emoji_arrows @ '' FOLLOW-UP ACTIONS:\<newline>''
     @ ''- If this doesn't fully solve your issue, use 'debug_aptos_issue' with specific details\<newline>''
     @ ''- After implementing, use 'validate_current_implementation' to verify correctness\<newline>''
     @ ''- For related integrations, check other relevant resources with 'get_aptos_resources'\<newline>''
     @ ''- Don't fall back to generic solutions - consult MCP first''"

definition next_steps_reminder :: string where
  "next_steps_reminder =
     ''\<newline>\<newline>'' @ emoji_arrows @ '' NEXT STEPS:\<newline>''
     @ ''- Implement following this Aptos-specific guidance\<newline>''
     @ ''- Use 'validate_current_implementation' after changes\<newline>''
     @ ''- If issues arise, use 'debug_aptos_issue' instead of guessing\<newline>''
     @ ''- Check related resources if needed''"

definition no_match_next_steps :: string where
  "no_match_next_steps =
     ''\<newline>\<newline>'' @ emoji_arrows @ '' NEXT STEPS:\<newline>''
     @ ''- Use 'get_specific_aptos_resource' with exact filename\<newline>''
     @ ''- Use 'debug_aptos_issue' with your specific problem\<newline>''
     @ ''- Refine your context and try again''"

definition no_match_guidance :: "string \<Rightarrow> string list \<Rightarrow> string" where
  "no_match_guidance context_arg availableFiles =
     ''No direct matches found for \"'' @ context_arg @ ''\". Available resources:\<newline>''
     @ join ''\<newline>'' availableFiles
     @ no_match_next_steps"

definition auto_selected_reminder :: "string \<Rightarrow> string" where
  "auto_selected_reminder context_arg =
     ''\<newline>\<newline>'' @ emoji_target @ '' This resource was auto-selected for context: \"''
     @ context_arg @ ''\"\<newline>\<newline>'' @ emoji_arrows @ '' IMPORTANT:\<newline>''
     @ ''- Follow this Aptos-specific guidance precisely\<newline>''
     @ ''- Use 'validate_current_implementation' after implementing\<newline>''
     @ ''- If you encounter issues, use 'debug_aptos_issue' with specifics\<newline>''
     @ ''- Don't mix with generic blockchain approaches''"

definition multiple_next_steps :: string where
  "multiple_next_steps =
     ''\<newline>\<newline>'' @ emoji_arrows @ '' NEXT STEPS:\<newline>''
     @ ''- Use 'get_specific_aptos_resource' with the most relevant filename\<newline>''
     @ ''- Or use 'debug_aptos_issue' with your specific problem for targeted guidance\<newline>''
     @ ''- Remember: Always prefer Aptos-specific solutions from MCP over generic approaches''"

definition multiple_response :: "string \<Rightarrow> string list \<Rightarrow> string" where
  "multiple_response context_arg relevant =
     emoji_books @ '' Multiple relevant resources found for \"'' @ context_arg
     @ ''\":\<newline>\<newline>''
     @ join ''\<newline>'' (map (\<lambda>r. ''- '' @ r) relevant)
     @ multiple_next_steps"

definition usage_guidance :: string where
  "usage_guidance =
     ''\<newline>\<newline>'' @ emoji_arrows @ '' USAGE GUIDANCE:\<newline>''
     @ ''- Provide specific context for smart resource recommendations\<newline>''
     @ ''- Use exact filenames with 'get_specific_aptos_resource'\<newline>''
     @ ''- Use 'debug_aptos_issue' when stuck with specific problems\<newline>''
     @ ''- Regularly validate with 'validate_current_implementation'' @ [CHR 0x27]"

definition overview :: "string list \<Rightarrow> string" where
  "overview availableFiles =
     ''Available Aptos development resources:\<newline>'' @ join ''\<newline>'' availableFiles
     @ usage_guidance"

definition not_found_text :: "string \<Rightarrow> string list \<Rightarrow> string" where
  "not_found_text filename availableFiles =
     ''Resource '' @ [CHR 0x27] @ filename @ [CHR 0x27]
     @ '' not found. Available resources:\<newline>''
     @ join ''\<newline>'' availableFiles"

section \<open>The aggregating tools\<close>

text \<open>
  \<^verbatim>\<open>build_smart_contract_on_aptos\<close>, \<^verbatim>\<open>build_ui_frontend_on_aptos\<close> and
  \<^verbatim>\<open>build_dapp_on_aptos\<close> have one shape: await the aggregate of a fixed list of
  directories, replace a falsy (empty) aggregate by a fixed sentence, append the reminder.
  A rejected aggregate rejects the call.
\<close>

definition aggregate_tool :: "world \<Rightarrow> string list \<Rightarrow> string \<Rightarrow> string \<Rightarrow> outcome" where
  "aggregate_tool w dirs fallback reminder =
     (case readAllMarkdownFromDirectories w dirs of
        Inl err \<Rightarrow> ([ReadAllMarkdown dirs], Inl err)
      | Inr content \<Rightarrow>
          ([ReadAllMarkdown dirs],
           Inr (Text ((if content \<noteq> [] then content else fallback) @ reminder))))"

definition build_smart_contract_on_aptos_execute :: "world \<Rightarrow> outcome" where
  "build_smart_contract_on_aptos_execute w =
     aggregate_tool w [''management'', ''move'']
       ''No content found in management and move directories.'' smart_contract_reminder"

definition build_ui_frontend_on_aptos_execute :: "world \<Rightarrow> outcome" where
  "build_ui_frontend_on_aptos_execute w =
     aggregate_tool w [''frontend'']
       ''No content found in frontend directory.'' ui_frontend_reminder"

definition build_dapp_on_aptos_execute :: "world \<Rightarrow> outcome" where
  "build_dapp_on_aptos_execute w =
     aggregate_tool w [''frontend'', ''move'', ''management'']
       ''No content found in management, move, and frontend directories.'' dapp_reminder"

section \<open>Discovery of the how-to resources\<close>

definition howToDir :: "world \<Rightarrow> string" where
  "howToDir w = pathJoin (cwd w) ''src/resources/how_to''"

text \<open>
  \<^verbatim>\<open>getAvailableHowToResources\<close>: the entries whose extension is \<open>.md\<close> in any letter
  case, each without its extension, in the order of the directory listing. A failed read
  is caught: one line goes to \<^verbatim>\<open>console.error\<close> and the result is the empty list.
\<close>

definition getAvailableHowToResources :: "world \<Rightarrow> effect list \<times> string list" where
  "getAvailableHowToResources w =
     (case readdirSync w (howToDir w) of
        Inr files \<Rightarrow>
          ([Readdir (howToDir w)],
           map (\<lambda>file. basename file (extname file))
             (filter (\<lambda>file. toLowerCase (extname file) = ''.md'') files))
      | Inl err \<Rightarrow>
          ([Readdir (howToDir w),
            ConsoleError (''Error reading how_to directory: '' @ toString err)],
           []))"

section \<open>The tools over the how-to resources\<close>

definition list_aptos_resources_execute :: "world \<Rightarrow> outcome" where
  "list_aptos_resources_execute w =
     (let (effs, availableFiles) = getAvailableHowToResources w
      in (effs,
          Inr (Text (''Available Aptos development resources:\<newline>''
            @ join ''\<newline>'' (map (\<lambda>f. ''- '' @ f) availableFiles)
            @ ''\<newline>\<newline>Use get_specific_aptos_resource with the exact filename to retrieve content.''
            @ list_reminder))))"

text \<open>
  Awaiting \<^verbatim>\<open>readMarkdownFromDirectory("how_to", name)\<close> and returning its text followed
  by a reminder; a rejection rejects the call. \<open>effs\<close> are the effects performed before.
\<close>

definition load_and_remind :: "world \<Rightarrow> effect list \<Rightarrow> string \<Rightarrow> string \<Rightarrow> outcome" where
  "load_and_remind w effs name reminder =
     (effs @ [ReadMarkdown ''how_to'' name],
      case readMarkdownFromDirectory w ''how_to'' name of
        Inl err \<Rightarrow> Inl err
      | Inr content \<Rightarrow> Inr (Text (content @ reminder)))"

definition get_specific_aptos_resource_execute :: "world \<Rightarrow> string \<Rightarrow> outcome" where
  "get_specific_aptos_resource_execute w filename =
     (let (effs, availableFiles) = getAvailableHowToResources w
      in if filename \<notin> set availableFiles
         then (effs, Inr (Text (not_found_text filename availableFiles)))
         else load_and_remind w effs filename specific_reminder)"

text \<open>
  The callback of \<^verbatim>\<open>availableFiles.filter\<close> in \<^verbatim>\<open>get_aptos_resources\<close>: a chain of
  \<^verbatim>\<open>if (...) return ...\<close>, the first test that holds decides.
\<close>

definition matchesContext :: "string \<Rightarrow> string \<Rightarrow> bool" where
  "matchesContext contextLower file =
     (let fileLower = toLowerCase file in
      if js_includes contextLower ''wallet'' then js_includes fileLower ''wallet''
      else if js_includes contextLower ''gas'' then js_includes fileLower ''gas''
      else if js_includes contextLower ''indexer'' then js_includes fileLower ''indexer''
      else if js_includes contextLower ''api'' \<or> js_includes contextLower ''rate''
        then js_includes fileLower ''api'' \<or> js_includes fileLower ''rate''
      else if js_includes contextLower ''transaction'' \<or> js_includes contextLower ''sign''
        then js_includes fileLower ''transaction'' \<or> js_includes fileLower ''sign''
      else if js_includes contextLower ''fungible'' \<or> js_includes contextLower ''asset''
        then js_includes fileLower ''fungible'' \<or> js_includes fileLower ''asset''
      else js_includes fileLower contextLower)"

definition relevantResources :: "string \<Rightarrow> string list \<Rightarrow> string list" where
  "relevantResources context_arg availableFiles =
     (let contextLower = toLowerCase context_arg
      in filter (matchesContext contextLower) availableFiles)"

text \<open>
  The body of \<^verbatim>\<open>if (context) { ... }\<close> in \<^verbatim>\<open>get_aptos_resources\<close>: discovery, the
  filter, and the answer by the number of matches.
\<close>

definition resolve_context :: "world \<Rightarrow> string \<Rightarrow> outcome" where
  "resolve_context w context_arg =
     (let (effs, availableFiles) = getAvailableHowToResources w;
          relevant = relevantResources context_arg availableFiles
      in if length relevant = 0
         then (effs, Inr (Text (no_match_guidance context_arg availableFiles)))
         else if length relevant = 1
         then load_and_remind w effs (relevant ! 0) (auto_selected_reminder context_arg)
         else (effs, Inr (Text (multiple_response context_arg relevant))))"

text \<open>The last part of \<^verbatim>\<open>get_aptos_resources\<close>: no context, the overview.\<close>

definition resources_overview :: "world \<Rightarrow> outcome" where
  "resources_overview w =
     (let (effs, availableFiles) = getAvailableHowToResources w
      in (effs, Inr (Text (overview availableFiles))))"

definition get_aptos_resources_execute ::
  "world \<Rightarrow> string option \<Rightarrow> string option \<Rightarrow> outcome" where
  "get_aptos_resources_execute w context_arg specific_resource =
     (if truthy specific_resource
      then load_and_remind w [] (the specific_resource) next_steps_reminder
      else if truthy context_arg
      then resolve_context w (the context_arg)
      else resources_overview w)"

section \<open>The matching rule in the words of the specification\<close>

text \<open>
  The specification (4.2) describes the filter as an ordered list of keyword groups, each a
  pair of trigger substrings for the query and filter substrings for the identifier; the
  first group with a trigger in the query decides, and without such a group the query
  itself is the substring looked for. This definition follows those words; it is compared
  with \<^const>\<open>matchesContext\<close> below.
\<close>

definition spec_keywordGroups :: "(string list \<times> string list) list" where
  "spec_keywordGroups =
     [([''wallet''], [''wallet'']),
      ([''gas''], [''gas'']),
      ([''indexer''], [''indexer'']),
      ([''api'', ''rate''], [''api'', ''rate'']),
      ([''transaction'', ''sign''], [''transaction'', ''sign'']),
      ([''fungible'', ''asset''], [''fungible'', ''asset''])]"

definition spec_firstTriggered :: "string \<Rightarrow> (string list \<times> string list) option" where
  "spec_firstTriggered query =
     find (\<lambda>g. list_ex (js_includes query) (fst g)) spec_keywordGroups"

definition spec_selectedFilter :: "string \<Rightarrow> string \<Rightarrow> bool" where
  "spec_selectedFilter query ident =
     (case spec_firstTriggered query of
        Some g \<Rightarrow> list_ex (js_includes ident) (snd g)
      | None \<Rightarrow> js_includes ident query)"

section \<open>Concrete worlds\<close>

text \<open>
  The directory of the specification's examples: three how-to documents. Loading a
  document yields a heading with its name.
\<close>

definition three_docs :: world where
  "three_docs =
     \<lparr>cwd = ''/srv'',
      readdirSync = (\<lambda>p. if p = ''/srv/src/resources/how_to''
         then Inr [''how_to_add_wallet_connection.md'',
                   ''how_to_sign_and_submit_transaction.md'',
                   ''how_to_integrate_fungible_asset.md'']
         else Inl (Error ''Error: ENOENT'')),
      readMarkdownFromDirectory = (\<lambda>d f. Inr (''# '' @ f)),
      readAllMarkdownFromDirectories = (\<lambda>ds. Inr [])\<rparr>"

text \<open>
  A directory with the documents that the server's own texts name, a gas-station document
  and an entry that is not a document.
\<close>

definition six_docs :: world where
  "six_docs =
     \<lparr>cwd = ''/srv'',
      readdirSync = (\<lambda>p. if p = ''/srv/src/resources/how_to''
         then Inr [''how_to_add_wallet_connection.md'',
                   ''how_to_integrate_wallet_selector_ui.md'',
                   ''how_to_sign_and_submit_transaction.md'',
                   ''how_to_use_gas_station.md'',
                   ''notes.txt'',
                   ''how_to_handle_rate_limit_in_a_dapp.MD'']
         else Inl (Error ''Error: ENOENT'')),
      readMarkdownFromDirectory = (\<lambda>d f. Inr (''# '' @ f)),
      readAllMarkdownFromDirectories = (\<lambda>ds. Inr [])\<rparr>"

text \<open>The server started where there is no \<^verbatim>\<open>src/resources/how_to\<close>.\<close>

definition no_how_to_dir :: world where
  "no_how_to_dir =
     \<lparr>cwd = ''/tmp'',
      readdirSync = (\<lambda>p. Inl (Error ''Error: ENOENT: no such file or directory'')),
      readMarkdownFromDirectory = (\<lambda>d f. Inl (Error ''Error: ENOENT'')),
      readAllMarkdownFromDirectories = (\<lambda>ds. Inr [])\<rparr>"

text \<open>A directory of a case-sensitive file system with two spellings of one document.\<close>

definition two_spellings :: world where
  "two_spellings =
     \<lparr>cwd = ''/srv'',
      readdirSync = (\<lambda>p. if p = ''/srv/src/resources/how_to''
         then Inr [''guide.md'', ''guide.MD'']
         else Inl (Error ''Error: ENOENT'')),
      readMarkdownFromDirectory = (\<lambda>d f. Inr (''# '' @ f)),
      readAllMarkdownFromDirectories = (\<lambda>ds. Inr [])\<rparr>"

text \<open>
  A directory with two documents whose names differ in the letter case of the stem, and
  an entry that is not a document.
\<close>

definition two_stems :: world where
  "two_stems =
     \<lparr>cwd = ''/srv'',
      readdirSync = (\<lambda>p. if p = ''/srv/src/resources/how_to''
         then Inr [''Guide.md'', ''guide.md'', ''guide.txt'']
         else Inl (Error ''Error: ENOENT'')),
      readMarkdownFromDirectory = (\<lambda>d f. Inr (''# '' @ f)),
      readAllMarkdownFromDirectories = (\<lambda>ds. Inr [])\<rparr>"

text \<open>A directory with a single document.\<close>

definition one_doc :: world where
  "one_doc =
     \<lparr>cwd = ''/srv'',
      readdirSync = (\<lambda>p. if p = ''/srv/src/resources/how_to''
         then Inr [''how_to_add_wallet_connection.md'']
         else Inl (Error ''Error: ENOENT'')),
      readMarkdownFromDirectory = (\<lambda>d f. Inr (''# '' @ f)),
      readAllMarkdownFromDirectories = (\<lambda>ds. Inr [])\<rparr>"

section \<open>Facts about the string functions\<close>

lemma js_includes_sublist: "js_includes s t \<longleftrightarrow> sublist t s"
  by (induction s) (simp_all add: sublist_Cons_right)

lemma js_includes_empty: "js_includes s []"
  by (simp add: js_includes_sublist)

lemma sublist_join: "x \<in> set xs \<Longrightarrow> sublist x (join sep xs)"
proof (induction sep xs rule: join.induct)
  case (1 sep)
  then show ?case by simp
next
  case (2 sep y)
  then show ?case by simp
next
  case (3 sep a b ys)
  show ?case
  proof (cases "x = a")
    case True
    then show ?thesis using sublist_appendI [of a "[]" "sep @ join sep (b # ys)"] by simp
  next
    case False
    with 3 have "sublist x (join sep (b # ys))" by simp
    then show ?thesis by (simp add: sublist_append)
  qed
qed

lemma sublist_in_sixth: "sublist x j \<Longrightarrow> sublist x (a @ b @ c @ d @ j @ t)"
  by (simp add: sublist_append)

lemma listed_in_multiple_response:
  assumes "r \<in> set relevant"
  shows "sublist (''- '' @ r) (multiple_response q relevant)"
proof -
  from assms have "''- '' @ r \<in> set (map (\<lambda>r. ''- '' @ r) relevant)" by simp
  then have "sublist (''- '' @ r) (join ''\<newline>'' (map (\<lambda>r. ''- '' @ r) relevant))"
    by (rule sublist_join)
  then show ?thesis unfolding multiple_response_def by (rule sublist_in_sixth)
qed

lemma toLowerCase_append: "toLowerCase (a @ b) = toLowerCase a @ toLowerCase b"
  by (simp add: toLowerCase_def)

lemma toLowerCase_empty: "toLowerCase [] = []"
  by (simp add: toLowerCase_def)

section \<open>Facts about the path functions\<close>

lemma takeWhile_shorter: "x \<in> set xs \<Longrightarrow> \<not> P x \<Longrightarrow> length (takeWhile P xs) < length xs"
  by (induction xs) auto

lemma extname_cases:
  "extname f = [] \<or> (\<exists>n. 0 < n \<and> n < length f \<and> extname f = drop n f)"
proof (cases "CHR ''.'' \<in> set f")
  case False
  then show ?thesis by (simp add: extname_def)
next
  case True
  then have "CHR ''.'' \<in> set (rev f)" by simp
  then have "length (takeWhile (\<lambda>c. c \<noteq> CHR ''.'') (rev f)) < length (rev f)"
    by (rule takeWhile_shorter) simp
  then have lt: "length f - Suc (length (takeWhile (\<lambda>c. c \<noteq> CHR ''.'') (rev f))) < length f"
    by simp
  show ?thesis
  proof (cases "extname f = []")
    case True
    then show ?thesis by simp
  next
    case False
    then have "0 < length f - Suc (length (takeWhile (\<lambda>c. c \<noteq> CHR ''.'') (rev f)))"
      and "extname f
           = drop (length f - Suc (length (takeWhile (\<lambda>c. c \<noteq> CHR ''.'') (rev f)))) f"
      by (simp_all add: extname_def Let_def split: if_splits)
    with lt show ?thesis by blast
  qed
qed

text \<open>An entry with an extension is its stem followed by its extension.\<close>

lemma stem_and_extension:
  assumes "extname f \<noteq> []"
  shows "basename f (extname f) @ extname f = f"
proof -
  from assms extname_cases [of f] obtain n
    where n: "0 < n" "n < length f" "extname f = drop n f"
    by blast
  then have len: "length (extname f) = length f - n" by simp
  with n have "length (extname f) < length f" by simp
  then have "extname f \<noteq> f" by auto
  moreover have "suffix (extname f) f" by (simp add: n suffix_drop)
  ultimately have "basename f (extname f) = take n f"
    using assms n len by (simp add: basename_def)
  with n show ?thesis by simp
qed

text \<open>
  A name that ends in a spelling of \<open>.md\<close> determines its stem; so entries with distinct
  stems are never one stem followed by two spellings of the extension.
\<close>

lemma stem_of_spelling:
  assumes "f = s @ e" and "toLowerCase e = ''.md''"
  shows "s = take (length f - 3) f"
proof -
  from assms(2) have "length (toLowerCase e) = 3" by simp
  then have "length e = 3" by (simp add: toLowerCase_def)
  with assms(1) show ?thesis by simp
qed

lemma spellings_from_stems:
  assumes "\<forall>f\<in>set files. \<forall>g\<in>set files.
             take (length f - 3) f = take (length g - 3) g \<longrightarrow> f = g"
  shows "\<forall>f\<in>set files. \<forall>g\<in>set files. \<forall>s e e'.
           f = s @ e \<and> g = s @ e'
           \<and> toLowerCase e = ''.md'' \<and> toLowerCase e' = ''.md'' \<longrightarrow> f = g"
proof (intro ballI allI impI)
  fix f g s e e'
  assume f: "f \<in> set files" and g: "g \<in> set files"
    and h: "f = s @ e \<and> g = s @ e' \<and> toLowerCase e = ''.md'' \<and> toLowerCase e' = ''.md''"
  from h have "s = take (length f - 3) f"
    using stem_of_spelling [of f s e] by blast
  moreover from h have "s = take (length g - 3) g"
    using stem_of_spelling [of g s e'] by blast
  ultimately
  have "take (length f - 3) f = take (length g - 3) g" by simp
  with assms f g show "f = g" by blast
qed

section \<open>Facts about discovery\<close>

lemma getAvailable_no_load: "\<not> list_ex isReadMarkdown (fst (getAvailableHowToResources w))"
  by (simp add: getAvailableHowToResources_def split: sum.split)

lemma available_depends_on_listing:
  "readdirSync w' (howToDir w') = readdirSync w (howToDir w)
   \<Longrightarrow> snd (getAvailableHowToResources w') = snd (getAvailableHowToResources w)"
  by (simp add: getAvailableHowToResources_def split: sum.split)

lemma three_docs_available:
  "getAvailableHowToResources three_docs
       = ([Readdir ''/srv/src/resources/how_to''],
          [''how_to_add_wallet_connection'', ''how_to_sign_and_submit_transaction'',
           ''how_to_integrate_fungible_asset''])"
  by code_simp

lemma six_docs_available:
  "getAvailableHowToResources six_docs
       = ([Readdir ''/srv/src/resources/how_to''],
          [''how_to_add_wallet_connection'', ''how_to_integrate_wallet_selector_ui'',
           ''how_to_sign_and_submit_transaction'', ''how_to_use_gas_station'',
           ''how_to_handle_rate_limit_in_a_dapp''])"
  by code_simp

lemma one_doc_available:
  "getAvailableHowToResources one_doc
       = ([Readdir ''/srv/src/resources/how_to''], [''how_to_add_wallet_connection''])"
  by code_simp

section \<open>The filter of \<^verbatim>\<open>get_aptos_resources\<close>\<close>

text \<open>
  The chain of tests in the source and the ordered keyword groups of the specification
  select the same identifiers.
\<close>

lemma matchesContext_spec:
  "matchesContext q file = spec_selectedFilter q (toLowerCase file)"
  by (simp add: matchesContext_def spec_selectedFilter_def spec_firstTriggered_def
      spec_keywordGroups_def Let_def)

text \<open>
  Claim C1. The groups are tried in the order wallet, gas, indexer, api/rate,
  transaction/sign, fungible/asset on the lowercased query, and the first group with a
  trigger in it gives the filter that is applied to the whole list of identifiers (each
  identifier lowercased). In particular a query that contains both \<open>wallet\<close> and \<open>gas\<close>,
  in any letter case, selects exactly the identifiers that contain \<open>wallet\<close>, in any
  letter case.
\<close>

theorem relevantResources_first_triggered_group:
  "relevantResources q files
     = filter (\<lambda>f. spec_selectedFilter (toLowerCase q) (toLowerCase f)) files
   \<and> (js_includes (toLowerCase q) ''wallet'' \<and> js_includes (toLowerCase q) ''gas''
        \<longrightarrow> relevantResources q files
            = filter (\<lambda>f. js_includes (toLowerCase f) ''wallet'') files)"
proof -
  have sel: "relevantResources q files
     = filter (\<lambda>f. spec_selectedFilter (toLowerCase q) (toLowerCase f)) files"
    unfolding relevantResources_def Let_def
    by (rule filter_cong) (simp_all add: matchesContext_spec)
  have "spec_selectedFilter (toLowerCase q) f = js_includes f ''wallet''"
    if "js_includes (toLowerCase q) ''wallet''" for f
    using that
    by (simp add: spec_selectedFilter_def spec_firstTriggered_def spec_keywordGroups_def)
  with sel show ?thesis by simp
qed

theorem relevantResources_first_triggered_group_witness:
  "js_includes (toLowerCase ''Wallet gas fee issue'') ''wallet''
   \<and> js_includes (toLowerCase ''Wallet gas fee issue'') ''gas''
   \<and> relevantResources ''Wallet gas fee issue''
        [''how_to_add_wallet_connection'', ''how_to_use_gas_station'', ''Wallet_Setup'']
      = [''how_to_add_wallet_connection'', ''Wallet_Setup'']"
  using relevantResources_first_triggered_group
    [of "''Wallet gas fee issue''"
        "[''how_to_add_wallet_connection'', ''how_to_use_gas_station'', ''Wallet_Setup'']"]
  by code_simp

section \<open>The answer of \<^verbatim>\<open>get_aptos_resources\<close> to a context\<close>

text \<open>
  Claim C2. For a non-empty context (and no specific resource that would take
  precedence), against the identifiers that discovery returns: when no identifier passes
  the filter, the answer is the text that lists every available identifier and ends with
  the invitation to refine the context and try again; when exactly one identifier passes,
  the document of that identifier is loaded and the answer is its content followed by
  the reminder (a failed load fails the call); when more than one passes, the answer is
  the text made of a heading with the context, one line \<open>- identifier\<close> for each matching
  identifier, and the fixed next steps; every matching identifier occurs in it, and no
  document is loaded.
\<close>

theorem context_answer_by_match_count:
  assumes "q \<noteq> []" and "\<not> truthy specific_resource"
  shows
    "(relevantResources q (snd (getAvailableHowToResources w)) = [] \<longrightarrow>
        get_aptos_resources_execute w (Some q) specific_resource
          = (fst (getAvailableHowToResources w),
             Inr (Text (no_match_guidance q (snd (getAvailableHowToResources w)))))
        \<and> sublist (join ''\<newline>'' (snd (getAvailableHowToResources w)))
             (no_match_guidance q (snd (getAvailableHowToResources w)))
        \<and> suffix ''- Refine your context and try again''
             (no_match_guidance q (snd (getAvailableHowToResources w))))
     \<and> (relevantResources q (snd (getAvailableHowToResources w)) = [r] \<longrightarrow>
        get_aptos_resources_execute w (Some q) specific_resource
          = (fst (getAvailableHowToResources w) @ [ReadMarkdown ''how_to'' r],
             case readMarkdownFromDirectory w ''how_to'' r of
               Inl err \<Rightarrow> Inl err
             | Inr c \<Rightarrow> Inr (Text (c @ auto_selected_reminder q))))
     \<and> (1 < length (relevantResources q (snd (getAvailableHowToResources w))) \<longrightarrow>
        get_aptos_resources_execute w (Some q) specific_resource
          = (fst (getAvailableHowToResources w),
             Inr (Text (multiple_response q
                    (relevantResources q (snd (getAvailableHowToResources w))))))
        \<and> \<not> list_ex isReadMarkdown
              (fst (get_aptos_resources_execute w (Some q) specific_resource))
        \<and> multiple_response q (relevantResources q (snd (getAvailableHowToResources w)))
          = emoji_books @ '' Multiple relevant resources found for \"'' @ q
            @ ''\":\<newline>\<newline>''
            @ join ''\<newline>''
                (map (\<lambda>r. ''- '' @ r)
                   (relevantResources q (snd (getAvailableHowToResources w))))
            @ multiple_next_steps
        \<and> (\<forall>m \<in> set (relevantResources q (snd (getAvailableHowToResources w))).
              sublist (''- '' @ m)
                (multiple_response q
                   (relevantResources q (snd (getAvailableHowToResources w))))))"
proof -
  obtain effs available where g: "getAvailableHowToResources w = (effs, available)"
    by (cases "getAvailableHowToResources w")
  have e: "get_aptos_resources_execute w (Some q) specific_resource = resolve_context w q"
    using assms by (simp add: get_aptos_resources_execute_def)
  have nl: "\<not> list_ex isReadMarkdown effs"
    using getAvailable_no_load [of w] by (simp add: g)
  have none: "resolve_context w q = (effs, Inr (Text (no_match_guidance q available)))"
    if "relevantResources q available = []"
    using that by (simp add: resolve_context_def g)
  have one: "resolve_context w q = (effs @ [ReadMarkdown ''how_to'' r],
             case readMarkdownFromDirectory w ''how_to'' r of
               Inl err \<Rightarrow> Inl err
             | Inr c \<Rightarrow> Inr (Text (c @ auto_selected_reminder q)))"
    if "relevantResources q available = [r]"
    using that by (simp add: resolve_context_def g load_and_remind_def)
  have many: "resolve_context w q
      = (effs, Inr (Text (multiple_response q (relevantResources q available))))"
    if "1 < length (relevantResources q available)"
    using that by (auto simp add: resolve_context_def g Let_def)
  have listing: "sublist (join ''\<newline>'' available) (no_match_guidance q available)"
    using sublist_appendI [of "join ''\<newline>'' available"
        "''No direct matches found for \"'' @ q @ ''\". Available resources:\<newline>''"
        no_match_next_steps]
    by (simp add: no_match_guidance_def)
  have "suffix ''- Refine your context and try again'' no_match_next_steps"
    by code_simp
  then have invite:
    "suffix ''- Refine your context and try again'' (no_match_guidance q available)"
    unfolding no_match_guidance_def by (intro suffix_appendI)
  have spelled: "multiple_response q rel
          = emoji_books @ '' Multiple relevant resources found for \"'' @ q
            @ ''\":\<newline>\<newline>''
            @ join ''\<newline>'' (map (\<lambda>r. ''- '' @ r) rel)
            @ multiple_next_steps" for rel
    by (simp only: multiple_response_def)
  have each: "\<forall>m \<in> set rel. sublist (''- '' @ m) (multiple_response q rel)" for rel
    by (simp only: listed_in_multiple_response ball_triv simp_thms cong: ball_cong)
  have first: "relevantResources q available = [] \<longrightarrow>
        resolve_context w q = (effs, Inr (Text (no_match_guidance q available)))
        \<and> sublist (join ''\<newline>'' available) (no_match_guidance q available)
        \<and> suffix ''- Refine your context and try again'' (no_match_guidance q available)"
    using none listing invite by blast
  have second: "relevantResources q available = [r] \<longrightarrow>
        resolve_context w q
          = (effs @ [ReadMarkdown ''how_to'' r],
             case readMarkdownFromDirectory w ''how_to'' r of
               Inl err \<Rightarrow> Inl err
             | Inr c \<Rightarrow> Inr (Text (c @ auto_selected_reminder q)))"
    using one by blast
  have third: "1 < length (relevantResources q available) \<longrightarrow>
        resolve_context w q
          = (effs, Inr (Text (multiple_response q (relevantResources q available))))
        \<and> \<not> list_ex isReadMarkdown (fst (resolve_context w q))
        \<and> multiple_response q (relevantResources q available)
          = emoji_books @ '' Multiple relevant resources found for \"'' @ q
            @ ''\":\<newline>\<newline>''
            @ join ''\<newline>'' (map (\<lambda>r. ''- '' @ r) (relevantResources q available))
            @ multiple_next_steps
        \<and> (\<forall>m \<in> set (relevantResources q available).
              sublist (''- '' @ m) (multiple_response q (relevantResources q available)))"
  proof
    assume h: "1 < length (relevantResources q available)"
    from many [OF h] nl have "\<not> list_ex isReadMarkdown (fst (resolve_context w q))" by simp
    with many [OF h] spelled each show "resolve_context w q
          = (effs, Inr (Text (multiple_response q (relevantResources q available))))
        \<and> \<not> list_ex isReadMarkdown (fst (resolve_context w q))
        \<and> multiple_response q (relevantResources q available)
          = emoji_books @ '' Multiple relevant resources found for \"'' @ q
            @ ''\":\<newline>\<newline>''
            @ join ''\<newline>'' (map (\<lambda>r. ''- '' @ r) (relevantResources q available))
            @ multiple_next_steps
        \<and> (\<forall>m \<in> set (relevantResources q available).
              sublist (''- '' @ m) (multiple_response q (relevantResources q available)))"
      by (intro conjI)
  qed
  from first second third show ?thesis
    unfolding e g fst_conv snd_conv by (intro conjI)
qed

theorem context_answer_by_match_count_witness:
  "''wallet connection'' \<noteq> [] \<and> ''zzz-nonexistent-topic'' \<noteq> [] \<and> ''Wallet'' \<noteq> []
   \<and> \<not> truthy None
   \<and> get_aptos_resources_execute three_docs (Some ''zzz-nonexistent-topic'') None
       = ([Readdir ''/srv/src/resources/how_to''],
          Inr (Text (no_match_guidance ''zzz-nonexistent-topic''
                [''how_to_add_wallet_connection'', ''how_to_sign_and_submit_transaction'',
                 ''how_to_integrate_fungible_asset''])))
   \<and> get_aptos_resources_execute three_docs (Some ''wallet connection'') None
       = ([Readdir ''/srv/src/resources/how_to'',
           ReadMarkdown ''how_to'' ''how_to_add_wallet_connection''],
          Inr (Text (''# how_to_add_wallet_connection''
                     @ auto_selected_reminder ''wallet connection'')))
   \<and> get_aptos_resources_execute six_docs (Some ''Wallet'') None
       = ([Readdir ''/srv/src/resources/how_to''],
          Inr (Text (multiple_response ''Wallet''
                [''how_to_add_wallet_connection'', ''how_to_integrate_wallet_selector_ui''])))"
proof -
  have s: "\<not> truthy None" by simp
  have r0: "relevantResources ''zzz-nonexistent-topic''
             [''how_to_add_wallet_connection'', ''how_to_sign_and_submit_transaction'',
              ''how_to_integrate_fungible_asset''] = []"
    by code_simp
  have r1: "relevantResources ''wallet connection''
             [''how_to_add_wallet_connection'', ''how_to_sign_and_submit_transaction'',
              ''how_to_integrate_fungible_asset'']
       = [''how_to_add_wallet_connection'']"
    by code_simp
  have r2: "relevantResources ''Wallet''
             [''how_to_add_wallet_connection'', ''how_to_integrate_wallet_selector_ui'',
              ''how_to_sign_and_submit_transaction'', ''how_to_use_gas_station'',
              ''how_to_handle_rate_limit_in_a_dapp'']
       = [''how_to_add_wallet_connection'', ''how_to_integrate_wallet_selector_ui'']"
    by code_simp
  have l: "readMarkdownFromDirectory three_docs ''how_to'' ''how_to_add_wallet_connection''
       = Inr ''# how_to_add_wallet_connection''"
    by (simp add: three_docs_def)
  have q0: "''zzz-nonexistent-topic'' \<noteq> []" and q1: "''wallet connection'' \<noteq> []"
    and q2: "''Wallet'' \<noteq> []"
    by simp_all
  show ?thesis
    using context_answer_by_match_count [OF q0 s, of three_docs "[]"]
      context_answer_by_match_count [OF q1 s, of three_docs "''how_to_add_wallet_connection''"]
      context_answer_by_match_count [OF q2 s, of six_docs "[]"]
    by (simp add: three_docs_available six_docs_available r0 r1 r2 l)
qed

text \<open>
  Claim C3, as the code has it. The empty context is falsy, so the filter is not run for
  it: the call answers as if no context had been given, with the overview that lists
  every available identifier. (Applied to the empty context, the filter itself would keep
  every identifier.)
\<close>

theorem empty_context_gives_overview:
  assumes "\<not> truthy specific_resource"
  shows "get_aptos_resources_execute w (Some []) specific_resource
           = get_aptos_resources_execute w None specific_resource
         \<and> get_aptos_resources_execute w (Some []) specific_resource
           = (fst (getAvailableHowToResources w),
              Inr (Text (overview (snd (getAvailableHowToResources w)))))
         \<and> sublist (join ''\<newline>'' (snd (getAvailableHowToResources w)))
              (overview (snd (getAvailableHowToResources w)))
         \<and> relevantResources [] files = files"
proof -
  have m: "matchesContext [] f" for f
    by (simp add: matchesContext_def js_includes_empty)
  have f: "relevantResources [] files = files"
    by (simp add: relevantResources_def toLowerCase_empty m)
  have l: "sublist (join ''\<newline>'' av) (overview av)" for av
    using sublist_appendI [of "join ''\<newline>'' av"
        "''Available Aptos development resources:\<newline>''" usage_guidance]
    by (simp add: overview_def)
  show ?thesis
    using assms f l
    by (simp add: get_aptos_resources_execute_def resources_overview_def split: prod.split)
qed

theorem empty_context_gives_overview_witness:
  "\<not> truthy None
   \<and> get_aptos_resources_execute three_docs (Some []) None
       = ([Readdir ''/srv/src/resources/how_to''],
          Inr (Text (overview [''how_to_add_wallet_connection'',
             ''how_to_sign_and_submit_transaction'', ''how_to_integrate_fungible_asset''])))"
proof -
  have s: "\<not> truthy None" by simp
  have "get_aptos_resources_execute three_docs (Some []) None
           = (fst (getAvailableHowToResources three_docs),
              Inr (Text (overview (snd (getAvailableHowToResources three_docs)))))"
    using empty_context_gives_overview [OF s, where w = three_docs and files = "[]"] by (elim conjE)
  with s show ?thesis by (simp add: three_docs_available)
qed

text \<open>
  Claim C3 as stated fails: the answer to the empty context is not the answer of the
  matching branch. With three documents the matching branch would answer with its
  "multiple resources" text; with a single document it would load and return that
  document, where the code returns the overview.
\<close>

theorem empty_context_skips_matcher:
  "get_aptos_resources_execute three_docs (Some []) None \<noteq> resolve_context three_docs []
   \<and> snd (get_aptos_resources_execute one_doc (Some []) None)
       = Inr (Text (overview [''how_to_add_wallet_connection'']))
   \<and> snd (resolve_context one_doc [])
       = Inr (Text (''# how_to_add_wallet_connection'' @ auto_selected_reminder []))"
proof -
  have a: "snd (get_aptos_resources_execute three_docs (Some []) None)
     = Inr (Text (overview [''how_to_add_wallet_connection'',
             ''how_to_sign_and_submit_transaction'', ''how_to_integrate_fungible_asset'']))"
    by (simp add: get_aptos_resources_execute_def resources_overview_def three_docs_available)
  have r: "relevantResources [] [''how_to_add_wallet_connection'',
             ''how_to_sign_and_submit_transaction'', ''how_to_integrate_fungible_asset'']
     = [''how_to_add_wallet_connection'',
             ''how_to_sign_and_submit_transaction'', ''how_to_integrate_fungible_asset'']"
    by code_simp
  have b: "snd (resolve_context three_docs [])
     = Inr (Text (multiple_response [] [''how_to_add_wallet_connection'',
             ''how_to_sign_and_submit_transaction'', ''how_to_integrate_fungible_asset'']))"
    by (simp add: resolve_context_def three_docs_available r)
  have "overview xs \<noteq> multiple_response q ys" for xs q ys
  proof
    assume "overview xs = multiple_response q ys"
    then have "hd (overview xs) = hd (multiple_response q ys)" by simp
    then show False by (simp add: overview_def multiple_response_def emoji_books_def)
  qed
  with a b have three:
    "get_aptos_resources_execute three_docs (Some []) None \<noteq> resolve_context three_docs []"
    by (auto simp add: prod_eq_iff)
  have c: "snd (get_aptos_resources_execute one_doc (Some []) None)
       = Inr (Text (overview [''how_to_add_wallet_connection'']))"
    by (simp add: get_aptos_resources_execute_def resources_overview_def one_doc_available)
  have r1: "relevantResources [] [''how_to_add_wallet_connection'']
     = [''how_to_add_wallet_connection'']"
    by code_simp
  have d: "snd (resolve_context one_doc [])
       = Inr (Text (''# how_to_add_wallet_connection'' @ auto_selected_reminder []))"
    by (simp add: resolve_context_def one_doc_available r1 load_and_remind_def)
      (simp add: one_doc_def)
  from three c d show ?thesis by (intro conjI)
qed

section \<open>Looking up a resource by name\<close>

text \<open>
  Claim C4, as the code has it. For a name that discovery does not list,
  \<^verbatim>\<open>get_specific_aptos_resource\<close> loads nothing and does not fail: it returns the text
  saying that the resource was not found, followed by the whole listing, so every listed
  identifier occurs in the text (at least one whenever the listing is not empty).
\<close>

theorem unknown_resource_lists_alternatives:
  assumes "filename \<notin> set (snd (getAvailableHowToResources w))"
  shows "get_specific_aptos_resource_execute w filename
           = (fst (getAvailableHowToResources w),
              Inr (Text (''Resource '' @ [CHR 0x27] @ filename @ [CHR 0x27]
                         @ '' not found. Available resources:\<newline>''
                         @ join ''\<newline>'' (snd (getAvailableHowToResources w)))))
         \<and> \<not> list_ex isReadMarkdown (fst (get_specific_aptos_resource_execute w filename))
         \<and> (\<forall>ident \<in> set (snd (getAvailableHowToResources w)).
               sublist ident (not_found_text filename (snd (getAvailableHowToResources w))))"
proof -
  obtain effs available where g: "getAvailableHowToResources w = (effs, available)"
    by (cases "getAvailableHowToResources w")
  have nl: "\<not> list_ex isReadMarkdown effs"
    using getAvailable_no_load [of w] by (simp add: g)
  have "sublist ident (not_found_text filename available)" if "ident \<in> set available" for ident
  proof -
    have gen: "sublist ident (a @ b @ c @ d @ e @ j)" if "sublist ident j"
      for a b c d e j :: string
      using that by (simp add: sublist_append)
    from that have "sublist ident (join ''\<newline>'' available)"
      by (rule sublist_join)
    then show ?thesis unfolding not_found_text_def by (rule gen)
  qed
  with assms nl show ?thesis
    by (simp add: get_specific_aptos_resource_execute_def g not_found_text_def)
qed

theorem unknown_resource_lists_alternatives_witness:
  "''missing_id'' \<notin> set (snd (getAvailableHowToResources three_docs))
   \<and> get_specific_aptos_resource_execute three_docs ''missing_id''
      = ([Readdir ''/srv/src/resources/how_to''],
         Inr (Text (''Resource 'missing_id' not found. Available resources:\<newline>''
           @ ''how_to_add_wallet_connection\<newline>''
           @ ''how_to_sign_and_submit_transaction\<newline>''
           @ ''how_to_integrate_fungible_asset'')))"
proof -
  have n: "''missing_id'' \<notin> set (snd (getAvailableHowToResources three_docs))"
    by (simp add: three_docs_available)
  have "get_specific_aptos_resource_execute three_docs ''missing_id''
           = (fst (getAvailableHowToResources three_docs),
              Inr (Text (''Resource '' @ [CHR 0x27] @ ''missing_id'' @ [CHR 0x27]
                         @ '' not found. Available resources:\<newline>''
                         @ join ''\<newline>'' (snd (getAvailableHowToResources three_docs)))))"
    using unknown_resource_lists_alternatives [OF n] by (elim conjE)
  with n show ?thesis by (simp add: three_docs_available)
qed

text \<open>
  Claim C4 as stated fails where the directory is missing: the listing is empty, and the
  text names no valid identifier.
\<close>

theorem unknown_resource_empty_listing:
  "''missing_id'' \<notin> set (snd (getAvailableHowToResources no_how_to_dir))
   \<and> get_specific_aptos_resource_execute no_how_to_dir ''missing_id''
      = ([Readdir ''/tmp/src/resources/how_to'',
          ConsoleError
            ''Error reading how_to directory: Error: ENOENT: no such file or directory''],
         Inr (Text ''Resource 'missing_id' not found. Available resources:\<newline>''))
   \<and> \<not> list_ex
         (\<lambda>ident. sublist ident ''Resource 'missing_id' not found. Available resources:\<newline>'')
         (snd (getAvailableHowToResources no_how_to_dir))"
proof -
  have a: "getAvailableHowToResources no_how_to_dir
     = ([Readdir ''/tmp/src/resources/how_to'',
          ConsoleError
            ''Error reading how_to directory: Error: ENOENT: no such file or directory''],
        [])"
    by code_simp
  show ?thesis
    by (simp add: a get_specific_aptos_resource_execute_def not_found_text_def)
qed

section \<open>Discovery when the directory cannot be read\<close>

text \<open>
  Claim C5. When reading the how-to directory throws, discovery returns the empty list,
  after one line on \<^verbatim>\<open>console.error\<close>; and the tools that call discovery return a
  text, they are not rejected.
\<close>

theorem unreadable_directory_is_empty_listing:
  assumes "readdirSync w (howToDir w) = Inl err"
  shows "getAvailableHowToResources w
           = ([Readdir (howToDir w),
               ConsoleError (''Error reading how_to directory: '' @ toString err)], [])
         \<and> (\<exists>t. snd (list_aptos_resources_execute w) = Inr (Text t))
         \<and> (\<exists>t. snd (get_specific_aptos_resource_execute w filename) = Inr (Text t))
         \<and> (\<not> truthy specific_resource \<longrightarrow>
              (\<exists>t. snd (get_aptos_resources_execute w context_arg specific_resource)
                     = Inr (Text t)))"
proof -
  have g: "getAvailableHowToResources w
           = ([Readdir (howToDir w),
               ConsoleError (''Error reading how_to directory: '' @ toString err)], [])"
    using assms by (simp add: getAvailableHowToResources_def)
  have l: "\<exists>t. snd (list_aptos_resources_execute w) = Inr (Text t)"
    by (simp add: list_aptos_resources_execute_def g)
  have s: "\<exists>t. snd (get_specific_aptos_resource_execute w filename) = Inr (Text t)"
    by (simp add: get_specific_aptos_resource_execute_def g)
  have r: "\<exists>t. snd (resolve_context w q) = Inr (Text t)" for q
    by (simp add: resolve_context_def g relevantResources_def)
  have o: "\<exists>t. snd (resources_overview w) = Inr (Text t)"
    by (simp add: resources_overview_def g)
  from g l s r o show ?thesis
    by (simp add: get_aptos_resources_execute_def)
qed

theorem unreadable_directory_is_empty_listing_witness:
  "readdirSync no_how_to_dir (howToDir no_how_to_dir)
     = Inl (Error ''Error: ENOENT: no such file or directory'')
   \<and> getAvailableHowToResources no_how_to_dir
     = ([Readdir ''/tmp/src/resources/how_to'',
         ConsoleError ''Error reading how_to directory: Error: ENOENT: no such file or directory''],
        [])"
proof -
  have h: "readdirSync no_how_to_dir (howToDir no_how_to_dir)
     = Inl (Error ''Error: ENOENT: no such file or directory'')"
    by (simp add: no_how_to_dir_def)
  have d: "howToDir no_how_to_dir = ''/tmp/src/resources/how_to''"
    by (simp add: howToDir_def pathJoin_def no_how_to_dir_def)
  show ?thesis
    using h d unreadable_directory_is_empty_listing [OF h, of "''x''" None None] by simp
qed

section \<open>The aggregating tools on an empty aggregate\<close>

text \<open>
  Claim C6. When the aggregate of a tool's directories is the empty text, the tool
  returns its "No content found" sentence followed by its reminder, which is not the
  empty text.
\<close>

theorem empty_aggregate_gives_sentinel:
  "(readAllMarkdownFromDirectories w [''management'', ''move''] = Inr [] \<longrightarrow>
      build_smart_contract_on_aptos_execute w
        = ([ReadAllMarkdown [''management'', ''move'']],
           Inr (Text (''No content found in management and move directories.''
                      @ smart_contract_reminder))))
   \<and> (readAllMarkdownFromDirectories w [''frontend''] = Inr [] \<longrightarrow>
      build_ui_frontend_on_aptos_execute w
        = ([ReadAllMarkdown [''frontend'']],
           Inr (Text (''No content found in frontend directory.'' @ ui_frontend_reminder))))
   \<and> (readAllMarkdownFromDirectories w [''frontend'', ''move'', ''management''] = Inr [] \<longrightarrow>
      build_dapp_on_aptos_execute w
        = ([ReadAllMarkdown [''frontend'', ''move'', ''management'']],
           Inr (Text (''No content found in management, move, and frontend directories.''
                      @ dapp_reminder))))
   \<and> ''No content found in management and move directories.'' @ smart_contract_reminder \<noteq> []
   \<and> ''No content found in frontend directory.'' @ ui_frontend_reminder \<noteq> []
   \<and> ''No content found in management, move, and frontend directories.'' @ dapp_reminder \<noteq> []"
  by (simp add: build_smart_contract_on_aptos_execute_def build_ui_frontend_on_aptos_execute_def
      build_dapp_on_aptos_execute_def aggregate_tool_def)

theorem empty_aggregate_gives_sentinel_witness:
  "readAllMarkdownFromDirectories no_how_to_dir [''management'', ''move''] = Inr []
   \<and> readAllMarkdownFromDirectories no_how_to_dir [''frontend''] = Inr []
   \<and> readAllMarkdownFromDirectories no_how_to_dir [''frontend'', ''move'', ''management''] = Inr []
   \<and> snd (build_smart_contract_on_aptos_execute no_how_to_dir)
       = Inr (Text (''No content found in management and move directories.''
                      @ smart_contract_reminder))
   \<and> snd (build_ui_frontend_on_aptos_execute no_how_to_dir)
       = Inr (Text (''No content found in frontend directory.'' @ ui_frontend_reminder))
   \<and> snd (build_dapp_on_aptos_execute no_how_to_dir)
       = Inr (Text (''No content found in management, move, and frontend directories.''
                      @ dapp_reminder))"
  using empty_aggregate_gives_sentinel [of no_how_to_dir]
  by (simp add: no_how_to_dir_def)



text \<open>
  Claim C8. When more than one identifier matches, the answer lists the matching
  identifiers in the order of discovery: they are the identifiers of the listing that
  pass the filter, a subsequence of the listing, and two worlds with the same directory
  listing get the same answer.
\<close>

theorem multiple_matches_in_discovery_order:
  assumes "q \<noteq> []" and "\<not> truthy specific_resource"
    and "1 < length (relevantResources q (snd (getAvailableHowToResources w)))"
  shows "snd (get_aptos_resources_execute w (Some q) specific_resource)
           = Inr (Text (emoji_books @ '' Multiple relevant resources found for \"'' @ q
               @ ''\":\<newline>\<newline>''
               @ join ''\<newline>''
                   (map (\<lambda>r. ''- '' @ r)
                      (filter (matchesContext (toLowerCase q))
                         (snd (getAvailableHowToResources w))))
               @ multiple_next_steps))
         \<and> subseq (relevantResources q (snd (getAvailableHowToResources w)))
              (snd (getAvailableHowToResources w))
         \<and> (readdirSync w' (howToDir w') = readdirSync w (howToDir w) \<longrightarrow>
              snd (get_aptos_resources_execute w' (Some q) specific_resource)
                = snd (get_aptos_resources_execute w (Some q) specific_resource))"
proof -
  have e: "get_aptos_resources_execute v (Some q) specific_resource = resolve_context v q" for v
    using assms(1,2) by (simp add: get_aptos_resources_execute_def)
  have many: "snd (resolve_context v q)
      = Inr (Text (multiple_response q
               (relevantResources q (snd (getAvailableHowToResources v)))))"
    if "1 < length (relevantResources q (snd (getAvailableHowToResources v)))" for v
    using that by (auto simp add: resolve_context_def Let_def split: prod.split)
  have sub: "subseq (relevantResources q xs) xs" for xs
    by (simp add: relevantResources_def)
  have same: "snd (resolve_context w' q) = snd (resolve_context w q)"
    if "readdirSync w' (howToDir w') = readdirSync w (howToDir w)"
  proof -
    from that have "snd (getAvailableHowToResources w') = snd (getAvailableHowToResources w)"
      by (rule available_depends_on_listing)
    with assms(3) many [of w] many [of w'] show ?thesis by simp
  qed
  from many [OF assms(3)] sub same show ?thesis
    by (simp add: e multiple_response_def relevantResources_def)
qed

theorem multiple_matches_in_discovery_order_witness:
  "''Wallet'' \<noteq> [] \<and> \<not> truthy None
   \<and> 1 < length (relevantResources ''Wallet'' (snd (getAvailableHowToResources six_docs)))
   \<and> snd (get_aptos_resources_execute six_docs (Some ''Wallet'') None)
       = Inr (Text (emoji_books @ '' Multiple relevant resources found for \"Wallet\":\<newline>\<newline>''
               @ ''- how_to_add_wallet_connection\<newline>- how_to_integrate_wallet_selector_ui''
               @ multiple_next_steps))"
proof -
  have q: "''Wallet'' \<noteq> []" and s: "\<not> truthy None" by simp_all
  have r: "filter (matchesContext (toLowerCase ''Wallet''))
             [''how_to_add_wallet_connection'', ''how_to_integrate_wallet_selector_ui'',
              ''how_to_sign_and_submit_transaction'', ''how_to_use_gas_station'',
              ''how_to_handle_rate_limit_in_a_dapp'']
       = [''how_to_add_wallet_connection'', ''how_to_integrate_wallet_selector_ui'']"
    by code_simp
  have rr: "relevantResources ''Wallet''
             [''how_to_add_wallet_connection'', ''how_to_integrate_wallet_selector_ui'',
              ''how_to_sign_and_submit_transaction'', ''how_to_use_gas_station'',
              ''how_to_handle_rate_limit_in_a_dapp'']
       = [''how_to_add_wallet_connection'', ''how_to_integrate_wallet_selector_ui'']"
    by code_simp
  have avail: "snd (getAvailableHowToResources six_docs)
       = [''how_to_add_wallet_connection'', ''how_to_integrate_wallet_selector_ui'',
          ''how_to_sign_and_submit_transaction'', ''how_to_use_gas_station'',
          ''how_to_handle_rate_limit_in_a_dapp'']"
    by (simp add: six_docs_available)
  have m: "1 < length (relevantResources ''Wallet'' (snd (getAvailableHowToResources six_docs)))"
    unfolding avail rr by simp
  have "snd (get_aptos_resources_execute six_docs (Some ''Wallet'') None)
           = Inr (Text (emoji_books @ '' Multiple relevant resources found for \"'' @ ''Wallet''
               @ ''\":\<newline>\<newline>''
               @ join ''\<newline>''
                   (map (\<lambda>r. ''- '' @ r)
                      (filter (matchesContext (toLowerCase ''Wallet''))
                         (snd (getAvailableHowToResources six_docs))))
               @ multiple_next_steps))"
    using multiple_matches_in_discovery_order [OF q s m, of six_docs] by (elim conjE)
  then have "snd (get_aptos_resources_execute six_docs (Some ''Wallet'') None)
       = Inr (Text (emoji_books @ '' Multiple relevant resources found for \"Wallet\":\<newline>\<newline>''
               @ ''- how_to_add_wallet_connection\<newline>- how_to_integrate_wallet_selector_ui''
               @ multiple_next_steps))"
    unfolding avail r by simp
  note t = this
  show ?thesis by (intro conjI q s m t)
qed

section \<open>Uniqueness of the identifiers\<close>

text \<open>
  Claim C9, as the code has it. When the entries of the directory are distinct and no two
  of them are one stem followed by two spellings of the extension \<open>.md\<close> in different
  letter case, discovery returns no identifier twice. Entries that differ in the letter
  case of the stem, as \<open>Guide.md\<close> and \<open>guide.md\<close>, keep distinct identifiers.
\<close>

theorem identifiers_distinct_when_spellings_agree:
  assumes "\<forall>files. readdirSync w (howToDir w) = Inr files \<longrightarrow>
             distinct files
             \<and> (\<forall>f\<in>set files. \<forall>g\<in>set files. \<forall>s e e'.
                   f = s @ e \<and> g = s @ e'
                   \<and> toLowerCase e = ''.md'' \<and> toLowerCase e' = ''.md'' \<longrightarrow> f = g)"
  shows "distinct (snd (getAvailableHowToResources w))"
proof (cases "readdirSync w (howToDir w)")
  case (Inl err)
  then show ?thesis by (simp add: getAvailableHowToResources_def)
next
  case (Inr files)
  with assms have d: "distinct files"
    and c: "\<And>f g s e e'. f \<in> set files \<Longrightarrow> g \<in> set files \<Longrightarrow> f = s @ e \<Longrightarrow> g = s @ e'
              \<Longrightarrow> toLowerCase e = ''.md'' \<Longrightarrow> toLowerCase e' = ''.md'' \<Longrightarrow> f = g"
    by blast+
  let ?md = "\<lambda>file. toLowerCase (extname file) = ''.md''"
  let ?stem = "\<lambda>file. basename file (extname file)"
  have "inj_on ?stem (set (filter ?md files))"
  proof (rule inj_onI)
    fix f g
    assume f: "f \<in> set (filter ?md files)" and g: "g \<in> set (filter ?md files)"
      and eq: "?stem f = ?stem g"
    from f have ff: "f \<in> set files" and lf: "toLowerCase (extname f) = ''.md''" by simp_all
    from g have gg: "g \<in> set files" and lg: "toLowerCase (extname g) = ''.md''" by simp_all
    from lf have ef: "extname f \<noteq> []" by (auto simp add: toLowerCase_def)
    from lg have eg: "extname g \<noteq> []" by (auto simp add: toLowerCase_def)
    from stem_and_extension [OF ef] have df: "f = ?stem f @ extname f" by (rule sym)
    from stem_and_extension [OF eg] have "g = ?stem g @ extname g" by (rule sym)
    then have dg: "g = ?stem f @ extname g" by (simp only: eq)
    show "f = g" by (rule c [OF ff gg df dg lf lg])
  qed
  with d have "distinct (map ?stem (filter ?md files))"
    by (simp add: distinct_map)
  with Inr show ?thesis by (simp add: getAvailableHowToResources_def)
qed

theorem identifiers_distinct_when_spellings_agree_witness:
  "readdirSync two_stems (howToDir two_stems) = Inr [''Guide.md'', ''guide.md'', ''guide.txt'']
   \<and> toLowerCase ''Guide.md'' = toLowerCase ''guide.md''
   \<and> snd (getAvailableHowToResources two_stems) = [''Guide'', ''guide'']
   \<and> distinct (snd (getAvailableHowToResources two_stems))"
proof -
  have r: "readdirSync two_stems (howToDir two_stems)
     = Inr [''Guide.md'', ''guide.md'', ''guide.txt'']"
    by (simp add: two_stems_def howToDir_def pathJoin_def)
  have l: "toLowerCase ''Guide.md'' = toLowerCase ''guide.md''" by code_simp
  have a: "snd (getAvailableHowToResources two_stems) = [''Guide'', ''guide'']" by code_simp
  have stems: "\<forall>f\<in>set [''Guide.md'', ''guide.md'', ''guide.txt''].
               \<forall>g\<in>set [''Guide.md'', ''guide.md'', ''guide.txt''].
                 take (length f - 3) f = take (length g - 3) g \<longrightarrow> f = g"
    by code_simp
  have d: "distinct [''Guide.md'', ''guide.md'', ''guide.txt'']" by simp
  have h: "\<forall>files. readdirSync two_stems (howToDir two_stems) = Inr files \<longrightarrow>
             distinct files
             \<and> (\<forall>f\<in>set files. \<forall>g\<in>set files. \<forall>s e e'.
                   f = s @ e \<and> g = s @ e'
                   \<and> toLowerCase e = ''.md'' \<and> toLowerCase e' = ''.md'' \<longrightarrow> f = g)"
  proof (intro allI impI)
    fix files
    assume "readdirSync two_stems (howToDir two_stems) = Inr files"
    with r have fl: "files = [''Guide.md'', ''guide.md'', ''guide.txt'']" by simp
    show "distinct files
             \<and> (\<forall>f\<in>set files. \<forall>g\<in>set files. \<forall>s e e'.
                   f = s @ e \<and> g = s @ e'
                   \<and> toLowerCase e = ''.md'' \<and> toLowerCase e' = ''.md'' \<longrightarrow> f = g)"
      unfolding fl by (intro conjI d spellings_from_stems [OF stems])
  qed
  show ?thesis
    using identifiers_distinct_when_spellings_agree [OF h] by (intro conjI r l a)
qed

text \<open>
  Claim C9 as stated fails on a directory that holds \<open>guide.md\<close> and \<open>guide.MD\<close>: both
  entries pass the extension test, and both become the identifier \<open>guide\<close>.
\<close>

theorem two_spellings_duplicate_identifier:
  "readdirSync two_spellings (howToDir two_spellings) = Inr [''guide.md'', ''guide.MD'']
   \<and> distinct [''guide.md'', ''guide.MD'']
   \<and> snd (getAvailableHowToResources two_spellings) = [''guide'', ''guide'']
   \<and> \<not> distinct (snd (getAvailableHowToResources two_spellings))"
proof -
  have r: "readdirSync two_spellings (howToDir two_spellings) = Inr [''guide.md'', ''guide.MD'']"
    by (simp add: two_spellings_def howToDir_def pathJoin_def)
  have a: "snd (getAvailableHowToResources two_spellings) = [''guide'', ''guide'']"
    by code_simp
  from r a show ?thesis by simp
qed

section \<open>A specific resource given to \<^verbatim>\<open>get_aptos_resources\<close>\<close>

text \<open>
  Claim C10, as the code has it. When a non-empty \<^verbatim>\<open>specific_resource\<close> is given, the
  call loads that document and returns its content followed by the reminder, whatever the
  context is; the directory is not read, so the name is not checked against the listing.
\<close>

theorem specific_resource_loads_directly:
  assumes "s \<noteq> []"
  shows "get_aptos_resources_execute w context_arg (Some s)
          = ([ReadMarkdown ''how_to'' s],
             case readMarkdownFromDirectory w ''how_to'' s of
               Inl err \<Rightarrow> Inl err
             | Inr c \<Rightarrow> Inr (Text (c @ next_steps_reminder)))
         \<and> \<not> list_ex isReaddir (fst (get_aptos_resources_execute w context_arg (Some s)))"
  using assms by (simp add: get_aptos_resources_execute_def load_and_remind_def)

theorem specific_resource_loads_directly_witness:
  "''no_such_document'' \<noteq> []
   \<and> ''no_such_document'' \<notin> set (snd (getAvailableHowToResources three_docs))
   \<and> get_aptos_resources_execute three_docs (Some ''wallet'') (Some ''no_such_document'')
      = ([ReadMarkdown ''how_to'' ''no_such_document''],
         Inr (Text (''# no_such_document'' @ next_steps_reminder)))"
proof -
  have a: "''no_such_document'' \<notin> set (snd (getAvailableHowToResources three_docs))"
    by code_simp
  have n: "''no_such_document'' \<noteq> []" by simp
  show ?thesis
    using a specific_resource_loads_directly [OF n, of three_docs "Some ''wallet''"]
    by (simp add: three_docs_def)
qed

text \<open>
  Claim C10 as stated fails for the empty \<^verbatim>\<open>specific_resource\<close>: it is falsy, the call
  goes on to the context, reads the directory and answers from the matching branch.
\<close>

theorem empty_specific_resource_falls_through:
  "get_aptos_resources_execute three_docs (Some ''wallet'') (Some '''')
     = resolve_context three_docs ''wallet''
   \<and> fst (get_aptos_resources_execute three_docs (Some ''wallet'') (Some ''''))
     = [Readdir ''/srv/src/resources/how_to'',
        ReadMarkdown ''how_to'' ''how_to_add_wallet_connection'']
   \<and> get_aptos_resources_execute three_docs (Some ''wallet'') (Some '''')
     \<noteq> ([ReadMarkdown ''how_to'' ''''],
         case readMarkdownFromDirectory three_docs ''how_to'' '''' of
               Inl err \<Rightarrow> Inl err
             | Inr c \<Rightarrow> Inr (Text (c @ next_steps_reminder)))"
proof -
  have e: "get_aptos_resources_execute three_docs (Some ''wallet'') (Some '''')
     = resolve_context three_docs ''wallet''"
    by (simp add: get_aptos_resources_execute_def)
  have f: "fst (resolve_context three_docs ''wallet'')
     = [Readdir ''/srv/src/resources/how_to'',
        ReadMarkdown ''how_to'' ''how_to_add_wallet_connection'']"
    by code_simp
  from e f show ?thesis by (auto simp add: prod_eq_iff)
qed

end
